theory Spec2Isabelle
  imports Main "HOL-Library.Word"
begin

unbundle bit_operations_syntax

section \<open>The SPI to UDP bridge of the ESP32-C3 firmware\<close>

text \<open>
  The forwarding loop is \<^verbatim>\<open>spi_udp_forward_loop\<close> in \<^verbatim>\<open>esp32c3/main/app_main.c\<close>
  (lines 245-284). The earlier variant of the firmware, with fixed Wi-Fi credentials,
  carries the same loop, statement for statement, at the end of its \<^verbatim>\<open>app_main\<close>
  (lines 125-164 of that file), so one embedding covers both.

  The SPI slave driver, the GPIO driver and the socket layer belong to the platform, not
  to this repository. They are the environment of the loop: what the driver answers to a
  transaction and what \<^verbatim>\<open>sendto\<close> returns are inputs of the model, and every call the
  loop makes to them is recorded as an event.
\<close>

subsection \<open>Constants and types\<close>

type_synonym uint8_t = "8 word"
type_synonym uint16_t = "16 word"
type_synonym esp_err_t = int

definition ESP_OK :: esp_err_t where
  "ESP_OK = 0"

definition PIN_RDY :: nat where
  "PIN_RDY = 10"

definition HDR_LEN :: nat where
  "HDR_LEN = 10"

definition PAYLOAD_MAX :: nat where
  "PAYLOAD_MAX = 2048"

text \<open>The three byte arrays on the stack of the loop; \<^verbatim>\<open>t.rx_buffer\<close> points to one of
  the first two, or is NULL after \<^verbatim>\<open>memset(&t, 0, sizeof(t))\<close>.\<close>

datatype bufref = HdrBuf | PayloadBuf

record spi_slave_transaction_t =
  t_length :: nat
  t_rx_buffer :: "bufref option"

text \<open>The stack frame of the loop. \<^verbatim>\<open>hdr\<close>, \<^verbatim>\<open>payload\<close> and \<^verbatim>\<open>t\<close> are declared before
  the \<^verbatim>\<open>while\<close>; \<^verbatim>\<open>out\<close> is declared inside it without an initialiser, so at the start
  of an iteration it holds whatever the stack held, which the model takes to be what the
  previous iteration left there.\<close>

record frame =
  hdr :: "uint8_t list"
  payload :: "uint8_t list"
  out :: "uint8_t list"
  t :: spi_slave_transaction_t

definition wf_frame :: "frame \<Rightarrow> bool" where
  "wf_frame s \<longleftrightarrow>
     length (hdr s) = HDR_LEN \<and> length (payload s) = PAYLOAD_MAX \<and>
     length (out s) = HDR_LEN + PAYLOAD_MAX"

text \<open>What the loop does to the outside, in program order.\<close>

datatype event =
    GpioSetLevel nat int
  | SpiSlaveTransmit nat
  | SendTo "uint8_t list" nat

text \<open>How an iteration can end other than by reaching the end of the loop body:
  \<^verbatim>\<open>ESP_ERROR_CHECK\<close> aborts, a driver call with \<^verbatim>\<open>portMAX_DELAY\<close> never returns, or a
  write leaves its array.\<close>

datatype stop = Aborted esp_err_t | Blocked | MemFault

text \<open>The environment of one driver call: it returns an error code together with the
  bytes the master clocked in, or it never returns.\<close>

datatype bus_reply = Return esp_err_t "uint8_t list" | NoReturn

record iter_env =
  hdr_reply :: bus_reply
  payload_reply :: bus_reply
  sendto_ret :: int

subsection \<open>Memory operations, with their bounds\<close>

definition memset_buf :: "uint8_t list \<Rightarrow> uint8_t \<Rightarrow> nat \<Rightarrow> uint8_t list option" where
  "memset_buf buf c n =
     (if n \<le> length buf then Some (replicate n c @ drop n buf) else None)"

definition memcpy_buf ::
  "uint8_t list \<Rightarrow> nat \<Rightarrow> uint8_t list \<Rightarrow> nat \<Rightarrow> uint8_t list option" where
  "memcpy_buf dst off src n =
     (if off + n \<le> length dst \<and> n \<le> length src
      then Some (take off dst @ take n src @ drop (off + n) dst) else None)"

text \<open>Modelled from the spec: the platform's SPI slave driver is not part of the
  repository. A transaction of \<^verbatim>\<open>t.length\<close> bits stores at most \<^verbatim>\<open>t.length / 8\<close> received
  bytes at the start of the receive buffer ("receive N bytes into buffer"); a request
  longer than the array is a write out of bounds.\<close>

definition dma_write :: "uint8_t list \<Rightarrow> nat \<Rightarrow> uint8_t list \<Rightarrow> uint8_t list option" where
  "dma_write buf nbits rx =
     (let n = nbits div 8; k = min n (length rx)
      in if n \<le> length buf then Some (take k rx @ drop k buf) else None)"

fun spi_slave_transmit :: "frame \<Rightarrow> bus_reply \<Rightarrow> stop + (esp_err_t \<times> frame)" where
  "spi_slave_transmit s NoReturn = Inl Blocked"
| "spi_slave_transmit s (Return err rx) =
     (if err \<noteq> ESP_OK then Inr (err, s)
      else case t_rx_buffer (t s) of
          None \<Rightarrow> Inr (ESP_OK, s)
        | Some HdrBuf \<Rightarrow>
            (case dma_write (hdr s) (t_length (t s)) rx of
               None \<Rightarrow> Inl MemFault
             | Some b \<Rightarrow> Inr (ESP_OK, s\<lparr>hdr := b\<rparr>))
        | Some PayloadBuf \<Rightarrow>
            (case dma_write (payload s) (t_length (t s)) rx of
               None \<Rightarrow> Inl MemFault
             | Some b \<Rightarrow> Inr (ESP_OK, s\<lparr>payload := b\<rparr>)))"

definition ESP_ERROR_CHECK :: "stop + (esp_err_t \<times> frame) \<Rightarrow> stop + frame" where
  "ESP_ERROR_CHECK r =
     (case r of
        Inl st \<Rightarrow> Inl st
      | Inr (err, s) \<Rightarrow> if err \<noteq> ESP_OK then Inl (Aborted err) else Inr s)"

subsection \<open>The loop body\<close>

definition set_rdy :: "int \<Rightarrow> event" where
  "set_rdy v = GpioSetLevel PIN_RDY v"

definition memset_t :: spi_slave_transaction_t where
  "memset_t = \<lparr>t_length = 0, t_rx_buffer = None\<rparr>"

text \<open>\<^verbatim>\<open>(uint16_t)(hdr[8] | ((uint16_t)hdr[9] << 8))\<close>: both operands are promoted to the
  32-bit \<^verbatim>\<open>int\<close> before the shift and the OR, and the result is cut to 16 bits.\<close>

definition decode_payload_len :: "uint8_t list \<Rightarrow> uint16_t" where
  "decode_payload_len h =
     ucast ((ucast (h ! 8) :: 32 word) OR
            push_bit 8 (ucast (ucast (h ! 9) :: 16 word) :: 32 word))"

definition clamp_payload_len :: "uint16_t \<Rightarrow> uint16_t" where
  "clamp_payload_len payload_len =
     (if unat payload_len > PAYLOAD_MAX then word_of_nat PAYLOAD_MAX else payload_len)"

text \<open>The header phase: lines 253-260.\<close>

definition recv_header :: "frame \<Rightarrow> bus_reply \<Rightarrow> event list \<times> (stop + frame)" where
  "recv_header s reply =
     (case memset_buf (hdr s) 0 (length (hdr s)) of
        None \<Rightarrow> ([set_rdy 1], Inl MemFault)
      | Some h0 \<Rightarrow>
          let s1 = s\<lparr>t := memset_t, hdr := h0\<rparr>;
              s2 = s1\<lparr>t := (t s1)\<lparr>t_length := HDR_LEN * 8, t_rx_buffer := Some HdrBuf\<rparr>\<rparr>
          in ([set_rdy 1, SpiSlaveTransmit (t_length (t s2))],
              ESP_ERROR_CHECK (spi_slave_transmit s2 reply)))"

text \<open>The payload phase: lines 267-274.\<close>

definition recv_payload ::
  "frame \<Rightarrow> uint16_t \<Rightarrow> bus_reply \<Rightarrow> event list \<times> (stop + frame)" where
  "recv_payload s payload_len reply =
     (case memset_buf (payload s) 0 (length (payload s)) of
        None \<Rightarrow> ([set_rdy 1], Inl MemFault)
      | Some p0 \<Rightarrow>
          let s1 = s\<lparr>t := memset_t, payload := p0\<rparr>;
              s2 = s1\<lparr>t := (t s1)\<lparr>t_length := unat payload_len * 8,
                                  t_rx_buffer := Some PayloadBuf\<rparr>\<rparr>
          in ([set_rdy 1, SpiSlaveTransmit (t_length (t s2))],
              ESP_ERROR_CHECK (spi_slave_transmit s2 reply)))"

text \<open>The forwarding phase: lines 277-282. The value \<^verbatim>\<open>sendto\<close> returns is an argument
  here because the environment produces it; the source does not bind it.\<close>

definition forward :: "frame \<Rightarrow> uint16_t \<Rightarrow> int \<Rightarrow> event list \<times> (stop + frame)" where
  "forward s payload_len ret =
     (case memcpy_buf (out s) 0 (hdr s) HDR_LEN of
        None \<Rightarrow> ([], Inl MemFault)
      | Some o1 \<Rightarrow>
          (case memcpy_buf o1 HDR_LEN (payload s) (unat payload_len) of
             None \<Rightarrow> ([], Inl MemFault)
           | Some o2 \<Rightarrow>
               let n = HDR_LEN + unat payload_len
               in if n \<le> length o2
                  then ([SendTo (take n o2) n], Inr (s\<lparr>out := o2\<rparr>))
                  else ([], Inl MemFault)))"

definition loop_body :: "frame \<Rightarrow> iter_env \<Rightarrow> event list \<times> (stop + frame)" where
  "loop_body s env =
     (case recv_header s (hdr_reply env) of
        (ev1, Inl st) \<Rightarrow> (ev1, Inl st)
      | (ev1, Inr s1) \<Rightarrow>
          let payload_len = clamp_payload_len (decode_payload_len (hdr s1))
          in (case recv_payload s1 payload_len (payload_reply env) of
                (ev2, Inl st) \<Rightarrow> (ev1 @ ev2, Inl st)
              | (ev2, Inr s2) \<Rightarrow>
                  (case forward s2 payload_len (sendto_ret env) of
                     (ev3, r) \<Rightarrow> (ev1 @ ev2 @ ev3, r))))"

text \<open>\<^verbatim>\<open>while (1)\<close>: the loop has no exit, so a run is described by the answers of the
  environment to its first iterations. It stops early where an iteration stops.\<close>

fun spi_udp_forward_loop :: "frame \<Rightarrow> iter_env list \<Rightarrow> event list \<times> (stop + frame)" where
  "spi_udp_forward_loop s [] = ([], Inr s)"
| "spi_udp_forward_loop s (env # envs) =
     (case loop_body s env of
        (ev, Inl st) \<Rightarrow> (ev, Inl st)
      | (ev, Inr s') \<Rightarrow>
          (case spi_udp_forward_loop s' envs of (evs, r) \<Rightarrow> (ev @ evs, r)))"

subsection \<open>What an iteration receives and emits\<close>

text \<open>The following functions describe an iteration by what the environment delivered in
  it. \<open>zero_fill n rx\<close> is what the first \<open>n\<close> bytes of a zeroed array hold after a
  transaction of \<open>n\<close> bytes stored \<open>rx\<close> there; \<open>completes\<close> says that both driver calls of
  the iteration returned \<^verbatim>\<open>ESP_OK\<close>; \<open>iteration_trace\<close> is the sequence of calls the
  state machine of the specification prescribes for a complete iteration; \<open>datagrams\<close>
  picks the \<^verbatim>\<open>sendto\<close> calls out of a trace.\<close>

definition zero_fill :: "nat \<Rightarrow> uint8_t list \<Rightarrow> uint8_t list" where
  "zero_fill n rx = take n rx @ replicate (n - length rx) 0"

definition completes :: "iter_env \<Rightarrow> bool" where
  "completes env =
     (case hdr_reply env of
        NoReturn \<Rightarrow> False
      | Return e1 _ \<Rightarrow>
          (case payload_reply env of
             NoReturn \<Rightarrow> False
           | Return e2 _ \<Rightarrow> e1 = ESP_OK \<and> e2 = ESP_OK))"

definition rx_header :: "iter_env \<Rightarrow> uint8_t list" where
  "rx_header env = (case hdr_reply env of NoReturn \<Rightarrow> [] | Return _ rx \<Rightarrow> zero_fill HDR_LEN rx)"

definition rx_len :: "iter_env \<Rightarrow> nat" where
  "rx_len env = unat (clamp_payload_len (decode_payload_len (rx_header env)))"

definition rx_payload :: "iter_env \<Rightarrow> uint8_t list" where
  "rx_payload env =
     (case payload_reply env of NoReturn \<Rightarrow> [] | Return _ rx \<Rightarrow> zero_fill (rx_len env) rx)"

definition iteration_trace :: "iter_env \<Rightarrow> event list" where
  "iteration_trace env =
     [set_rdy 1, SpiSlaveTransmit (HDR_LEN * 8),
      set_rdy 1, SpiSlaveTransmit (rx_len env * 8),
      SendTo (rx_header env @ rx_payload env) (HDR_LEN + rx_len env)]"

fun datagrams :: "event list \<Rightarrow> (uint8_t list \<times> nat) list" where
  "datagrams [] = []"
| "datagrams (SendTo d n # evs) = (d, n) # datagrams evs"
| "datagrams (_ # evs) = datagrams evs"

subsection \<open>Sample inputs\<close>

text \<open>A stack frame of the right shape, and the header and payload of section 8 of the
  specification: frame 1, chunk 2, five payload bytes.\<close>

definition zero_frame :: frame where
  "zero_frame =
     \<lparr>hdr = replicate 10 0, payload = replicate 2048 0, out = replicate 2058 0,
      t = memset_t\<rparr>"

definition example_hdr :: "uint8_t list" where
  "example_hdr = [0x01, 0, 0, 0, 0x02, 0, 0x00, 0x00, 0x05, 0x00]"

definition example_payload :: "uint8_t list" where
  "example_payload = [0xAA, 0xBB, 0xCC, 0xDD, 0xEE]"

definition example_env :: iter_env where
  "example_env =
     \<lparr>hdr_reply = Return ESP_OK example_hdr, payload_reply = Return ESP_OK example_payload,
      sendto_ret = 15\<rparr>"

text \<open>A header that declares 0x0801 = 2049 payload bytes, one more than the maximum.\<close>

definition oversize_hdr :: "uint8_t list" where
  "oversize_hdr = [0x01, 0, 0, 0, 0x02, 0, 0x00, 0x00, 0x01, 0x08]"

definition oversize_env :: iter_env where
  "oversize_env =
     \<lparr>hdr_reply = Return ESP_OK oversize_hdr,
      payload_reply = Return ESP_OK (replicate 2049 0xAB), sendto_ret = 2058\<rparr>"

text \<open>A header that declares no payload, answered by a completed transaction and by one
  that never completes; and a driver error (\<^verbatim>\<open>ESP_FAIL\<close> is -1) in each phase.\<close>

definition zero_len_hdr :: "uint8_t list" where
  "zero_len_hdr = [0x01, 0, 0, 0, 0x03, 0, 0x00, 0x00, 0x00, 0x00]"

definition zero_len_env :: iter_env where
  "zero_len_env =
     \<lparr>hdr_reply = Return ESP_OK zero_len_hdr, payload_reply = Return ESP_OK [0x55],
      sendto_ret = 10\<rparr>"

definition stalled_env :: iter_env where
  "stalled_env =
     \<lparr>hdr_reply = Return ESP_OK zero_len_hdr, payload_reply = NoReturn, sendto_ret = 0\<rparr>"

definition hdr_fail_env :: iter_env where
  "hdr_fail_env =
     \<lparr>hdr_reply = Return (- 1) [], payload_reply = Return ESP_OK example_payload,
      sendto_ret = 0\<rparr>"

definition payload_fail_env :: iter_env where
  "payload_fail_env =
     \<lparr>hdr_reply = Return ESP_OK example_hdr, payload_reply = Return (- 1) [0xAA, 0xBB],
      sendto_ret = 0\<rparr>"

section \<open>Properties\<close>

subsection \<open>The header decode on words\<close>

lemma byte_lt: "unat (a :: 8 word) < 256"
  using unsigned_less [of a, where 'a = nat] by simp

lemma ucast_8_16_32: "(ucast (ucast (b :: 8 word) :: 16 word) :: 32 word) = ucast b"
  by (rule bit_word_eqI) (auto simp add: bit_simps dest: bit_imp_le_length)

lemma unat_up32: "unat (ucast (a :: 8 word) :: 32 word) = unat a"
  using byte_lt [of a] by (simp add: unsigned_ucast_eq take_bit_nat_eq_self)

lemma or_shift_add:
  fixes a b :: "8 word"
  shows "(ucast a :: 32 word) OR push_bit 8 (ucast (ucast b :: 16 word) :: 32 word)
       = ucast a + 256 * ucast b"
proof -
  have "(ucast a :: 32 word) OR push_bit 8 (ucast b :: 32 word) = ucast a + push_bit 8 (ucast b)"
    by (rule disjunctive_add [symmetric]) (auto simp add: bit_simps dest: bit_imp_le_length)
  thus ?thesis by (simp add: push_bit_eq_mult ucast_8_16_32)
qed

lemma unat_sum32: fixes a b :: "8 word"
  shows "unat ((ucast a :: 32 word) + 256 * ucast b) = unat a + 256 * unat b"
  using byte_lt [of a] byte_lt [of b]
  by (simp add: unat_word_ariths unat_up32)

lemma unat_cut16: fixes a b :: "8 word"
  shows "unat (ucast ((ucast a :: 32 word) + 256 * ucast b) :: 16 word) = unat a + 256 * unat b"
  using byte_lt [of a] byte_lt [of b]
  by (simp add: unsigned_ucast_eq unat_sum32 take_bit_nat_eq_self)

lemma decode_unat: "unat (decode_payload_len h) = unat (h ! 8) + 256 * unat (h ! 9)"
  unfolding decode_payload_len_def or_shift_add by (rule unat_cut16)

subsection \<open>The three phases\<close>

lemma length_zero_fill: "length (zero_fill n rx) = n"
  by (simp add: zero_fill_def)

lemma zero_fill_exact: "length rx = n \<Longrightarrow> zero_fill n rx = rx"
  by (simp add: zero_fill_def)

lemma zero_fill_long: "n \<le> length rx \<Longrightarrow> zero_fill n rx = take n rx"
  by (simp add: zero_fill_def)

lemma zero_fill_0: "zero_fill 0 rx = []"
  by (simp add: zero_fill_def)

lemma clamp_le: "unat (clamp_payload_len w) \<le> PAYLOAD_MAX"
  by (simp add: clamp_payload_len_def PAYLOAD_MAX_def)

lemma clamp_small: "unat w \<le> PAYLOAD_MAX \<Longrightarrow> clamp_payload_len w = w"
  by (simp add: clamp_payload_len_def)

lemma clamp_big: "PAYLOAD_MAX < unat w \<Longrightarrow> unat (clamp_payload_len w) = PAYLOAD_MAX"
  by (simp add: clamp_payload_len_def PAYLOAD_MAX_def)

lemma recv_header_ok:
  assumes "wf_frame s"
  shows "recv_header s (Return ESP_OK rx) =
     ([set_rdy 1, SpiSlaveTransmit (HDR_LEN * 8)],
      Inr (s\<lparr>t := \<lparr>t_length = HDR_LEN * 8, t_rx_buffer = Some HdrBuf\<rparr>,
             hdr := zero_fill HDR_LEN rx\<rparr>))"
  using assms
  by (simp add: recv_header_def wf_frame_def memset_buf_def memset_t_def ESP_ERROR_CHECK_def
      dma_write_def zero_fill_def Let_def min_def)

lemma recv_header_err:
  assumes "e \<noteq> ESP_OK"
  shows "recv_header s (Return e rx) =
     ([set_rdy 1, SpiSlaveTransmit (HDR_LEN * 8)], Inl (Aborted e))"
  using assms
  by (simp add: recv_header_def memset_buf_def ESP_ERROR_CHECK_def Let_def)

lemma recv_header_block:
  shows "recv_header s NoReturn =
     ([set_rdy 1, SpiSlaveTransmit (HDR_LEN * 8)], Inl Blocked)"
  by (simp add: recv_header_def memset_buf_def ESP_ERROR_CHECK_def Let_def)

lemma recv_payload_ok:
  assumes "wf_frame s" "unat payload_len \<le> PAYLOAD_MAX"
  shows "recv_payload s payload_len (Return ESP_OK rx) =
     ([set_rdy 1, SpiSlaveTransmit (unat payload_len * 8)],
      Inr (s\<lparr>t := \<lparr>t_length = unat payload_len * 8, t_rx_buffer = Some PayloadBuf\<rparr>,
             payload := zero_fill (unat payload_len) rx @
                        replicate (PAYLOAD_MAX - unat payload_len) 0\<rparr>))"
  using assms
  by (simp add: recv_payload_def wf_frame_def memset_buf_def memset_t_def ESP_ERROR_CHECK_def
      dma_write_def Let_def min_def zero_fill_def replicate_add [symmetric])

lemma recv_payload_err:
  assumes "e \<noteq> ESP_OK"
  shows "recv_payload s payload_len (Return e rx) =
     ([set_rdy 1, SpiSlaveTransmit (unat payload_len * 8)], Inl (Aborted e))"
  using assms
  by (simp add: recv_payload_def memset_buf_def ESP_ERROR_CHECK_def Let_def)

lemma recv_payload_block:
  shows "recv_payload s payload_len NoReturn =
     ([set_rdy 1, SpiSlaveTransmit (unat payload_len * 8)], Inl Blocked)"
  by (simp add: recv_payload_def memset_buf_def ESP_ERROR_CHECK_def Let_def)

lemma forward_ok:
  assumes "length (hdr s) = HDR_LEN" "length (payload s) = PAYLOAD_MAX"
    "length (out s) = HDR_LEN + PAYLOAD_MAX" "unat payload_len \<le> PAYLOAD_MAX"
  shows "forward s payload_len r =
     ([SendTo (hdr s @ take (unat payload_len) (payload s)) (HDR_LEN + unat payload_len)],
      Inr (s\<lparr>out := hdr s @ take (unat payload_len) (payload s) @
                     drop (HDR_LEN + unat payload_len) (out s)\<rparr>))"
  using assms
  by (simp add: forward_def memcpy_buf_def Let_def add.commute)

subsection \<open>A complete iteration\<close>

lemma loop_body_ok:
  assumes wf: "wf_frame s"
    and h: "hdr_reply env = Return ESP_OK hrx"
    and p: "payload_reply env = Return ESP_OK prx"
  shows "loop_body s env =
    (iteration_trace env,
     Inr \<lparr>hdr = rx_header env,
          payload = rx_payload env @ replicate (PAYLOAD_MAX - rx_len env) 0,
          out = rx_header env @ rx_payload env @ drop (HDR_LEN + rx_len env) (out s),
          t = \<lparr>t_length = rx_len env * 8, t_rx_buffer = Some PayloadBuf\<rparr>\<rparr>)"
proof -
  define H where "H = zero_fill HDR_LEN hrx"
  define w where "w = clamp_payload_len (decode_payload_len H)"
  define P where "P = zero_fill (unat w) prx"
  define s1 where
    "s1 = s\<lparr>t := \<lparr>t_length = HDR_LEN * 8, t_rx_buffer = Some HdrBuf\<rparr>, hdr := H\<rparr>"
  define s2 where
    "s2 = s1\<lparr>t := \<lparr>t_length = unat w * 8, t_rx_buffer = Some PayloadBuf\<rparr>,
             payload := P @ replicate (PAYLOAD_MAX - unat w) 0\<rparr>"
  have wf1: "wf_frame s1"
    using wf by (simp add: wf_frame_def s1_def H_def length_zero_fill)
  have hdr1: "hdr s1 = H"
    by (simp add: s1_def)
  have le: "unat w \<le> PAYLOAD_MAX"
    unfolding w_def by (rule clamp_le)
  have r1: "recv_header s (hdr_reply env) =
      ([set_rdy 1, SpiSlaveTransmit (HDR_LEN * 8)], Inr s1)"
    unfolding h s1_def H_def by (rule recv_header_ok [OF wf])
  have r2: "recv_payload s1 w (payload_reply env) =
      ([set_rdy 1, SpiSlaveTransmit (unat w * 8)], Inr s2)"
    unfolding p s2_def P_def by (rule recv_payload_ok [OF wf1 le])
  have hdr2: "hdr s2 = H" and out2: "out s2 = out s"
    by (simp_all add: s2_def s1_def)
  have lens: "length (hdr s2) = HDR_LEN" "length (payload s2) = PAYLOAD_MAX"
    "length (out s2) = HDR_LEN + PAYLOAD_MAX"
    using wf le by (simp_all add: wf_frame_def s2_def s1_def H_def P_def length_zero_fill)
  have tk: "take (unat w) (payload s2) = P"
    by (simp add: s2_def P_def length_zero_fill)
  have r3: "forward s2 w (sendto_ret env) =
     ([SendTo (H @ P) (HDR_LEN + unat w)],
      Inr (s2\<lparr>out := H @ P @ drop (HDR_LEN + unat w) (out s)\<rparr>))"
    using forward_ok [OF lens le, of "sendto_ret env"] unfolding tk hdr2 out2 .
  have names: "rx_header env = H" "rx_len env = unat w" "rx_payload env = P"
    by (simp_all add: rx_header_def rx_len_def rx_payload_def h p H_def w_def P_def)
  have final: "s2\<lparr>out := H @ P @ drop (HDR_LEN + unat w) (out s)\<rparr> =
      \<lparr>hdr = H, payload = P @ replicate (PAYLOAD_MAX - unat w) 0,
       out = H @ P @ drop (HDR_LEN + unat w) (out s),
       t = \<lparr>t_length = unat w * 8, t_rx_buffer = Some PayloadBuf\<rparr>\<rparr>"
    by (simp add: s2_def s1_def)
  have "loop_body s env =
      ([set_rdy 1, SpiSlaveTransmit (HDR_LEN * 8), set_rdy 1, SpiSlaveTransmit (unat w * 8),
        SendTo (H @ P) (HDR_LEN + unat w)],
       Inr (s2\<lparr>out := H @ P @ drop (HDR_LEN + unat w) (out s)\<rparr>))"
    by (simp add: loop_body_def r1 Let_def hdr1 w_def [symmetric] r2 r3)
  thus ?thesis
    unfolding final names iteration_trace_def .
qed

subsection \<open>The iterations that stop, and what every iteration keeps\<close>

lemma reply_cases [case_names hdr_block hdr_err payload_block payload_err complete]:
  obtains "hdr_reply env = NoReturn"
  | e rx where "hdr_reply env = Return e rx" "e \<noteq> ESP_OK"
  | hrx where "hdr_reply env = Return ESP_OK hrx" "payload_reply env = NoReturn"
  | hrx e rx where "hdr_reply env = Return ESP_OK hrx" "payload_reply env = Return e rx"
      "e \<noteq> ESP_OK"
  | hrx prx where "hdr_reply env = Return ESP_OK hrx" "payload_reply env = Return ESP_OK prx"
proof (cases "hdr_reply env")
  case NoReturn
  then show ?thesis using that(1) by simp
next
  case h: (Return e1 hrx)
  show ?thesis
  proof (cases "e1 = ESP_OK")
    case False
    with h show ?thesis using that(2) by simp
  next
    case True
    show ?thesis
    proof (cases "payload_reply env")
      case NoReturn
      with h True show ?thesis using that(3) by simp
    next
      case p: (Return e2 prx)
      show ?thesis
      proof (cases "e2 = ESP_OK")
        case False
        with h p True show ?thesis using that(4) by simp
      next
        case True2: True
        with h p True show ?thesis using that(5) by simp
      qed
    qed
  qed
qed

lemma loop_body_hdr_block:
  assumes "hdr_reply env = NoReturn"
  shows "loop_body s env = ([set_rdy 1, SpiSlaveTransmit (HDR_LEN * 8)], Inl Blocked)"
  by (simp add: loop_body_def assms recv_header_block)

lemma loop_body_hdr_err:
  assumes "hdr_reply env = Return e rx" "e \<noteq> ESP_OK"
  shows "loop_body s env = ([set_rdy 1, SpiSlaveTransmit (HDR_LEN * 8)], Inl (Aborted e))"
  by (simp add: loop_body_def assms recv_header_err)

lemma loop_body_payload_block:
  assumes "wf_frame s" "hdr_reply env = Return ESP_OK hrx" "payload_reply env = NoReturn"
  shows "loop_body s env =
    ([set_rdy 1, SpiSlaveTransmit (HDR_LEN * 8), set_rdy 1, SpiSlaveTransmit (rx_len env * 8)],
     Inl Blocked)"
  using assms
  by (simp add: loop_body_def recv_header_ok recv_payload_block Let_def rx_len_def rx_header_def)

lemma loop_body_payload_err:
  assumes "wf_frame s" "hdr_reply env = Return ESP_OK hrx" "payload_reply env = Return e rx"
    "e \<noteq> ESP_OK"
  shows "loop_body s env =
    ([set_rdy 1, SpiSlaveTransmit (HDR_LEN * 8), set_rdy 1, SpiSlaveTransmit (rx_len env * 8)],
     Inl (Aborted e))"
  using assms
  by (simp add: loop_body_def recv_header_ok recv_payload_err Let_def rx_len_def rx_header_def)

lemma rx_len_le: "rx_len env \<le> PAYLOAD_MAX"
  unfolding rx_len_def by (rule clamp_le)

lemma length_rx_header: "hdr_reply env = Return e rx \<Longrightarrow> length (rx_header env) = HDR_LEN"
  by (simp add: rx_header_def length_zero_fill)

lemma length_rx_payload:
  "payload_reply env = Return e rx \<Longrightarrow> length (rx_payload env) = rx_len env"
  by (simp add: rx_payload_def length_zero_fill)

lemma loop_body_wf:
  assumes "wf_frame s" "loop_body s env = (ev, Inr s')"
  shows "wf_frame s'"
proof (cases env rule: reply_cases)
  case hdr_block
  with assms show ?thesis by (simp add: loop_body_hdr_block)
next
  case (hdr_err e rx)
  with assms show ?thesis by (simp add: loop_body_hdr_err)
next
  case (payload_block hrx)
  with assms show ?thesis by (simp add: loop_body_payload_block)
next
  case (payload_err hrx e rx)
  with assms show ?thesis by (simp add: loop_body_payload_err)
next
  case (complete hrx prx)
  with assms have s': "s' = \<lparr>hdr = rx_header env,
       payload = rx_payload env @ replicate (PAYLOAD_MAX - rx_len env) 0,
       out = rx_header env @ rx_payload env @ drop (HDR_LEN + rx_len env) (out s),
       t = \<lparr>t_length = rx_len env * 8, t_rx_buffer = Some PayloadBuf\<rparr>\<rparr>"
    by (simp add: loop_body_ok)
  show ?thesis
    using assms(1) rx_len_le [of env] length_rx_header [OF complete(1)]
      length_rx_payload [OF complete(2)]
    by (simp add: s' wf_frame_def)
qed

lemma loop_body_trace_indep:
  assumes "wf_frame s" "wf_frame s'"
  shows "fst (loop_body s env) = fst (loop_body s' env)"
proof (cases env rule: reply_cases)
  case hdr_block
  then show ?thesis by (simp add: loop_body_hdr_block)
next
  case (hdr_err e rx)
  then show ?thesis by (simp add: loop_body_hdr_err)
next
  case (payload_block hrx)
  with assms show ?thesis by (simp add: loop_body_payload_block)
next
  case (payload_err hrx e rx)
  with assms show ?thesis by (simp add: loop_body_payload_err)
next
  case (complete hrx prx)
  with assms show ?thesis by (simp add: loop_body_ok)
qed

lemma loop_body_no_memfault:
  assumes "wf_frame s"
  shows "snd (loop_body s env) \<noteq> Inl MemFault"
proof (cases env rule: reply_cases)
  case hdr_block
  then show ?thesis by (simp add: loop_body_hdr_block)
next
  case (hdr_err e rx)
  then show ?thesis by (simp add: loop_body_hdr_err)
next
  case (payload_block hrx)
  with assms show ?thesis by (simp add: loop_body_payload_block)
next
  case (payload_err hrx e rx)
  with assms show ?thesis by (simp add: loop_body_payload_err)
next
  case (complete hrx prx)
  with assms show ?thesis by (simp add: loop_body_ok)
qed

lemma loop_body_starts_with_header_phase:
  assumes "wf_frame s"
  shows "take 2 (fst (loop_body s env)) = [set_rdy 1, SpiSlaveTransmit (HDR_LEN * 8)]"
proof (cases env rule: reply_cases)
  case hdr_block
  then show ?thesis by (simp add: loop_body_hdr_block)
next
  case (hdr_err e rx)
  then show ?thesis by (simp add: loop_body_hdr_err)
next
  case (payload_block hrx)
  with assms show ?thesis by (simp add: loop_body_payload_block)
next
  case (payload_err hrx e rx)
  with assms show ?thesis by (simp add: loop_body_payload_err)
next
  case (complete hrx prx)
  with assms show ?thesis by (simp add: loop_body_ok iteration_trace_def)
qed

lemma datagrams_append: "datagrams (xs @ ys) = datagrams xs @ datagrams ys"
  by (induction xs rule: datagrams.induct) simp_all

lemma loop_body_sends:
  assumes "wf_frame s"
  shows "list_all (\<lambda>(d, n). 10 \<le> n \<and> n \<le> 2058 \<and> length d = n)
           (datagrams (fst (loop_body s env)))"
proof (cases env rule: reply_cases)
  case hdr_block
  then show ?thesis by (simp add: loop_body_hdr_block set_rdy_def)
next
  case (hdr_err e rx)
  then show ?thesis by (simp add: loop_body_hdr_err set_rdy_def)
next
  case (payload_block hrx)
  with assms show ?thesis by (simp add: loop_body_payload_block set_rdy_def)
next
  case (payload_err hrx e rx)
  with assms show ?thesis by (simp add: loop_body_payload_err set_rdy_def)
next
  case (complete hrx prx)
  with assms rx_len_le [of env] length_rx_header [of env] length_rx_payload [of env]
  show ?thesis
    by (simp add: loop_body_ok iteration_trace_def set_rdy_def HDR_LEN_def PAYLOAD_MAX_def)
qed

lemma completes_iff:
  "completes env \<longleftrightarrow>
     (\<exists>hrx prx. hdr_reply env = Return ESP_OK hrx \<and> payload_reply env = Return ESP_OK prx)"
  by (auto simp add: completes_def split: bus_reply.splits)

lemma loop_wf:
  assumes "wf_frame s" "spi_udp_forward_loop s envs = (evs, Inr s')"
  shows "wf_frame s'"
  using assms
proof (induction envs arbitrary: s evs)
  case Nil
  then show ?case by simp
next
  case (Cons env envs)
  obtain ev r where lb: "loop_body s env = (ev, r)" by (cases "loop_body s env")
  show ?case
  proof (cases r)
    case (Inl st)
    with Cons.prems lb show ?thesis by simp
  next
    case (Inr s1)
    with lb Cons.prems(1) have wf1: "wf_frame s1" by (auto dest: loop_body_wf)
    obtain evs1 r1 where rest: "spi_udp_forward_loop s1 envs = (evs1, r1)"
      by (cases "spi_udp_forward_loop s1 envs")
    with Cons.prems(2) lb Inr have "r1 = Inr s'" by simp
    with rest Cons.IH [OF wf1] show ?thesis by simp
  qed
qed

subsection \<open>The loop\<close>

lemma loop_body_complete:
  assumes "wf_frame s" "completes env"
  shows "loop_body s env = (iteration_trace env, Inr (projr (snd (loop_body s env))))"
    and "wf_frame (projr (snd (loop_body s env)))"
proof -
  from assms(2) obtain hrx prx
    where "hdr_reply env = Return ESP_OK hrx" "payload_reply env = Return ESP_OK prx"
    by (auto simp add: completes_iff)
  with assms(1) show eq: "loop_body s env =
      (iteration_trace env, Inr (projr (snd (loop_body s env))))"
    by (simp add: loop_body_ok)
  with assms(1) show "wf_frame (projr (snd (loop_body s env)))"
    by (rule loop_body_wf)
qed

lemma loop_Cons_Inl:
  "loop_body s env = (ev, Inl st) \<Longrightarrow> spi_udp_forward_loop s (env # envs) = (ev, Inl st)"
  by simp

lemma loop_Cons_Inr:
  "loop_body s env = (ev, Inr s1) \<Longrightarrow>
   spi_udp_forward_loop s (env # envs) =
     (ev @ fst (spi_udp_forward_loop s1 envs), snd (spi_udp_forward_loop s1 envs))"
  by (simp split: prod.splits)

lemma loop_no_memfault:
  assumes "wf_frame s"
  shows "snd (spi_udp_forward_loop s envs) \<noteq> Inl MemFault"
  using assms
proof (induction envs arbitrary: s)
  case Nil
  then show ?case by simp
next
  case (Cons env envs)
  obtain ev r where lb: "loop_body s env = (ev, r)" by (cases "loop_body s env")
  show ?case
  proof (cases r)
    case (Inl st)
    with lb loop_body_no_memfault [OF Cons.prems, of env] show ?thesis
      by (simp add: loop_Cons_Inl del: spi_udp_forward_loop.simps)
  next
    case (Inr s1)
    with lb Cons.prems have "wf_frame s1" by (auto dest: loop_body_wf)
    from Cons.IH [OF this] lb Inr show ?thesis
      by (simp add: loop_Cons_Inr del: spi_udp_forward_loop.simps)
  qed
qed

lemma loop_sends:
  assumes "wf_frame s"
  shows "list_all (\<lambda>(d, n). 10 \<le> n \<and> n \<le> 2058 \<and> length d = n)
           (datagrams (fst (spi_udp_forward_loop s envs)))"
  using assms
proof (induction envs arbitrary: s)
  case Nil
  then show ?case by simp
next
  case (Cons env envs)
  obtain ev r where lb: "loop_body s env = (ev, r)" by (cases "loop_body s env")
  from loop_body_sends [OF Cons.prems, of env] lb
  have here: "list_all (\<lambda>(d, n). 10 \<le> n \<and> n \<le> 2058 \<and> length d = n) (datagrams ev)"
    by simp
  show ?case
  proof (cases r)
    case (Inl st)
    with lb here show ?thesis
      by (simp add: loop_Cons_Inl del: spi_udp_forward_loop.simps)
  next
    case (Inr s1)
    with lb Cons.prems have "wf_frame s1" by (auto dest: loop_body_wf)
    from Cons.IH [OF this] lb Inr here show ?thesis
      by (simp add: loop_Cons_Inr datagrams_append del: spi_udp_forward_loop.simps)
  qed
qed

lemma loop_complete_trace:
  assumes "wf_frame s" "list_all completes envs"
  shows "fst (spi_udp_forward_loop s envs) = concat (map iteration_trace envs)"
  using assms
proof (induction envs arbitrary: s)
  case Nil
  then show ?case by simp
next
  case (Cons env envs)
  from Cons.prems have c: "completes env" and cs: "list_all completes envs" by simp_all
  let ?s1 = "projr (snd (loop_body s env))"
  have lb: "loop_body s env = (iteration_trace env, Inr ?s1)" and wf1: "wf_frame ?s1"
    using loop_body_complete [OF Cons.prems(1) c] by simp_all
  have "fst (spi_udp_forward_loop s (env # envs)) =
      iteration_trace env @ fst (spi_udp_forward_loop ?s1 envs)"
    by (simp add: loop_Cons_Inr [OF lb] del: spi_udp_forward_loop.simps)
  with Cons.IH [OF wf1 cs] show ?case by simp
qed

lemma count_rdy_trace:
  "count_list (concat (map iteration_trace envs)) (set_rdy 1) = 2 * length envs"
  by (induction envs) (simp_all add: iteration_trace_def set_rdy_def)

lemma forward_ignores_ret: "forward s w r = forward s w r'"
  by (simp add: forward_def)

lemma loop_body_ignores_ret:
  "loop_body s (env\<lparr>sendto_ret := r\<rparr>) = loop_body s (env\<lparr>sendto_ret := r'\<rparr>)"
  by (simp add: loop_body_def Let_def forward_ignores_ret [of _ _ r r']
      split: prod.splits sum.splits)

lemma loop_starts_with_header_phase:
  assumes "wf_frame s"
  shows "take 2 (fst (spi_udp_forward_loop s (env # envs))) =
    [set_rdy 1, SpiSlaveTransmit (HDR_LEN * 8)]"
proof -
  obtain ev r where lb: "loop_body s env = (ev, r)" by (cases "loop_body s env")
  with loop_body_starts_with_header_phase [OF assms, of env]
  have ev: "take 2 ev = [set_rdy 1, SpiSlaveTransmit (HDR_LEN * 8)]" by simp
  hence "2 \<le> length ev"
    by (metis length_take min.cobounded1 length_Cons list.size(3) One_nat_def Suc_1)
  with ev have "take 2 (ev @ rest) = [set_rdy 1, SpiSlaveTransmit (HDR_LEN * 8)]" for rest
    by simp
  with lb ev show ?thesis
    by (cases r) (simp_all add: loop_Cons_Inl loop_Cons_Inr del: spi_udp_forward_loop.simps)
qed

text \<open>The bound checks of the model are live: without the clamp, a declared length of 2049
  makes the payload transaction leave the array.\<close>

lemma unclamped_length_would_fault:
  "snd (recv_payload zero_frame 2049 (Return ESP_OK rx)) = Inl MemFault"
  by (simp add: recv_payload_def memset_buf_def zero_frame_def memset_t_def dma_write_def
      ESP_ERROR_CHECK_def Let_def)

section \<open>The claims\<close>

text \<open>Each claim is proved for the loop body started in an arbitrary frame whose arrays
  have their declared sizes; by \<open>loop_wf\<close> and \<open>loop_body_wf\<close> every frame the loop reaches
  is of that kind, so the statements hold for every iteration of a run.\<close>

lemma wf_zero_frame: "wf_frame zero_frame"
  by (simp add: wf_frame_def zero_frame_def HDR_LEN_def PAYLOAD_MAX_def)

lemma datagrams_iteration_trace:
  "datagrams (iteration_trace env) = [(rx_header env @ rx_payload env, HDR_LEN + rx_len env)]"
  by (simp add: iteration_trace_def set_rdy_def)

lemma complete_exact:
  assumes "hdr_reply env = Return ESP_OK h" "length h = HDR_LEN"
    "payload_reply env = Return ESP_OK p"
  shows "rx_header env = h"
    and "rx_len env = unat (clamp_payload_len (decode_payload_len h))"
    and "rx_payload env = zero_fill (unat (clamp_payload_len (decode_payload_len h))) p"
  using assms by (simp_all add: rx_header_def rx_len_def rx_payload_def zero_fill_exact)

lemma unat_clamp: "unat (clamp_payload_len w) = min PAYLOAD_MAX (unat w)"
  by (simp add: clamp_payload_len_def PAYLOAD_MAX_def min_def)

lemma loop_body_payload_request:
  assumes "wf_frame s" and "hdr_reply env = Return ESP_OK h" and "length h = HDR_LEN"
  shows "take 4 (fst (loop_body s env)) =
    [set_rdy 1, SpiSlaveTransmit (HDR_LEN * 8), set_rdy 1,
     SpiSlaveTransmit (min PAYLOAD_MAX (unat (decode_payload_len h)) * 8)]"
proof -
  have "rx_header env = h"
    using assms(2,3) by (simp add: rx_header_def zero_fill_exact)
  hence n: "rx_len env = min PAYLOAD_MAX (unat (decode_payload_len h))"
    by (simp add: rx_len_def unat_clamp)
  show ?thesis
  proof (cases "payload_reply env")
    case NoReturn
    with assms(1,2) show ?thesis
      by (simp add: loop_body_payload_block n)
  next
    case (Return e rx)
    show ?thesis
    proof (cases "e = ESP_OK")
      case True
      with Return assms(1,2) show ?thesis
        by (simp add: loop_body_ok iteration_trace_def n)
    next
      case False
      with Return assms(1,2) show ?thesis
        by (simp add: loop_body_payload_err n)
    qed
  qed
qed

text \<open>Claim C1. In an iteration whose header transaction delivers ten bytes declaring a
  payload length of at most 2048, and whose payload transaction delivers that many bytes,
  the one buffer handed to \<^verbatim>\<open>sendto\<close> has length 10 plus the declared length: its first
  ten bytes are the header as received and the rest is the payload as received, with
  nothing added. This holds from every frame of the right shape, whatever it held before.\<close>

theorem forwarded_datagram_is_header_then_payload:
  assumes "wf_frame s"
    and "hdr_reply env = Return ESP_OK h" and "length h = HDR_LEN"
    and "unat (decode_payload_len h) \<le> PAYLOAD_MAX"
    and "payload_reply env = Return ESP_OK p" and "length p = unat (decode_payload_len h)"
  shows "datagrams (fst (loop_body s env)) = [(h @ p, 10 + unat (decode_payload_len h))] \<and>
         length (h @ p) = 10 + unat (decode_payload_len h) \<and>
         take 10 (h @ p) = h \<and> drop 10 (h @ p) = p"
proof -
  have n: "rx_len env = unat (decode_payload_len h)"
    using assms by (simp add: complete_exact clamp_small)
  have hd: "rx_header env = h" and pl: "rx_payload env = p"
    using assms by (simp_all add: complete_exact clamp_small zero_fill_exact)
  have "loop_body s env = (iteration_trace env, snd (loop_body s env))"
    using assms by (simp add: loop_body_ok)
  hence "datagrams (fst (loop_body s env)) = datagrams (iteration_trace env)"
    by (metis fst_conv)
  thus ?thesis
    using assms(3,6) by (simp add: datagrams_iteration_trace n hd pl HDR_LEN_def)
qed

theorem forwarded_datagram_witness:
  "wf_frame zero_frame \<and> unat (decode_payload_len example_hdr) = 5 \<and>
   datagrams (fst (loop_body zero_frame example_env)) =
     [([0x01, 0, 0, 0, 0x02, 0, 0, 0, 0x05, 0, 0xAA, 0xBB, 0xCC, 0xDD, 0xEE], 15)]"
proof -
  have d: "unat (decode_payload_len example_hdr) = 5"
    by (simp add: decode_unat example_hdr_def)
  show ?thesis
    using forwarded_datagram_is_header_then_payload
      [of zero_frame example_env example_hdr example_payload] wf_zero_frame d
    by (simp add: example_env_def example_hdr_def example_payload_def HDR_LEN_def
        PAYLOAD_MAX_def)
qed

text \<open>Claim C2. When the received header declares more than 2048 payload bytes, the payload
  transaction asks for exactly 2048 bytes (16384 bits), only the first 2048 bytes the bus
  delivers reach the payload array, and the datagram is 2058 bytes long. The iteration
  ends normally: its trace holds the usual five calls and nothing that reports the
  clamp.\<close>

theorem oversize_payload_len_is_clamped:
  assumes "wf_frame s"
    and "hdr_reply env = Return ESP_OK h" and "length h = HDR_LEN"
    and "PAYLOAD_MAX < unat (decode_payload_len h)"
    and "payload_reply env = Return ESP_OK p" and "PAYLOAD_MAX \<le> length p"
  shows "fst (loop_body s env) =
           [set_rdy 1, SpiSlaveTransmit (HDR_LEN * 8),
            set_rdy 1, SpiSlaveTransmit (2048 * 8), SendTo (h @ take 2048 p) 2058] \<and>
         length (h @ take 2048 p) = 2058 \<and>
         map_sum id payload (snd (loop_body s env)) = Inr (take 2048 p)"
proof -
  have n: "rx_len env = 2048"
    using assms by (simp add: complete_exact clamp_big PAYLOAD_MAX_def)
  have hd: "rx_header env = h" and pl: "rx_payload env = take 2048 p"
    using assms
    by (simp_all add: complete_exact clamp_big zero_fill_long PAYLOAD_MAX_def)
  show ?thesis
    using assms
    by (simp add: loop_body_ok iteration_trace_def n hd pl HDR_LEN_def PAYLOAD_MAX_def)
qed

theorem oversize_payload_len_witness:
  "PAYLOAD_MAX < unat (decode_payload_len oversize_hdr) \<and>
   fst (loop_body zero_frame oversize_env) =
     [set_rdy 1, SpiSlaveTransmit 80, set_rdy 1, SpiSlaveTransmit 16384,
      SendTo (oversize_hdr @ replicate 2048 0xAB) 2058]"
proof -
  have d: "unat (decode_payload_len oversize_hdr) = 2049"
    by (simp add: decode_unat oversize_hdr_def)
  show ?thesis
    using oversize_payload_len_is_clamped
      [of zero_frame oversize_env oversize_hdr "replicate 2049 0xAB"] wf_zero_frame d
    by (simp add: oversize_env_def oversize_hdr_def HDR_LEN_def PAYLOAD_MAX_def)
qed

text \<open>Claim C3. The header phase leaves the ten received bytes in \<^verbatim>\<open>hdr\<close>, and the length
  decoded from them is byte 8 plus 256 times byte 9, an unsigned 16-bit little-endian
  number; overwriting any other byte of the header leaves the decoded length as it is.
  The loop uses that value: whatever the driver answers in the payload phase, the fourth
  call of the iteration is the payload transaction, and it requests 8 bits for each of
  byte 8 plus 256 times byte 9 bytes, cut to 2048 by the clamp. A header that differs in
  another byte gives the same four calls.\<close>

theorem payload_len_is_little_endian_bytes_8_9:
  assumes "wf_frame s" and "hdr_reply env = Return ESP_OK h" and "length h = HDR_LEN"
    and "i \<noteq> 8" and "i \<noteq> 9"
  shows "map_sum id hdr (snd (recv_header s (Return ESP_OK h))) = Inr h \<and>
         unat (decode_payload_len h) = unat (h ! 8) + 256 * unat (h ! 9) \<and>
         decode_payload_len (h[i := v]) = decode_payload_len h \<and>
         take 4 (fst (loop_body s env)) =
           [GpioSetLevel 10 1, SpiSlaveTransmit 80, GpioSetLevel 10 1,
            SpiSlaveTransmit (8 * min 2048 (unat (h ! 8) + 256 * unat (h ! 9)))] \<and>
         take 4 (fst (loop_body s (env\<lparr>hdr_reply := Return ESP_OK (h[i := v])\<rparr>))) =
           take 4 (fst (loop_body s env))"
proof -
  have stored: "map_sum id hdr (snd (recv_header s (Return ESP_OK h))) = Inr h"
    using assms(1,3) by (simp add: recv_header_ok zero_fill_exact)
  have other: "decode_payload_len (h[i := v]) = decode_payload_len h"
    using assms(4,5) by (simp add: decode_payload_len_def)
  have used: "take 4 (fst (loop_body s env)) =
      [GpioSetLevel 10 1, SpiSlaveTransmit 80, GpioSetLevel 10 1,
       SpiSlaveTransmit (8 * min 2048 (unat (h ! 8) + 256 * unat (h ! 9)))]"
    using loop_body_payload_request [OF assms(1,2,3)]
    by (simp add: decode_unat set_rdy_def PIN_RDY_def HDR_LEN_def PAYLOAD_MAX_def mult.commute)
  have "take 4 (fst (loop_body s (env\<lparr>hdr_reply := Return ESP_OK (h[i := v])\<rparr>))) =
      [set_rdy 1, SpiSlaveTransmit (HDR_LEN * 8), set_rdy 1,
       SpiSlaveTransmit (min PAYLOAD_MAX (unat (decode_payload_len (h[i := v]))) * 8)]"
    using assms(1,3) by (intro loop_body_payload_request) simp_all
  also have "\<dots> = take 4 (fst (loop_body s env))"
    unfolding other using loop_body_payload_request [OF assms(1,2,3)] by simp
  finally have same: "take 4 (fst (loop_body s (env\<lparr>hdr_reply := Return ESP_OK (h[i := v])\<rparr>))) =
      take 4 (fst (loop_body s env))" .
  from stored other used same show ?thesis
    by (simp add: decode_unat)
qed

theorem payload_len_decode_witness:
  "wf_frame zero_frame \<and> unat (decode_payload_len oversize_hdr) = 1 + 256 * 8 \<and>
   decode_payload_len (oversize_hdr[0 := 0xFF]) = decode_payload_len oversize_hdr \<and>
   take 4 (fst (loop_body zero_frame example_env)) =
     [GpioSetLevel 10 1, SpiSlaveTransmit 80, GpioSetLevel 10 1, SpiSlaveTransmit 40] \<and>
   take 4 (fst (loop_body zero_frame oversize_env)) =
     [GpioSetLevel 10 1, SpiSlaveTransmit 80, GpioSetLevel 10 1, SpiSlaveTransmit 16384]"
proof -
  have a: "hdr_reply oversize_env = Return ESP_OK oversize_hdr"
    and b: "hdr_reply example_env = Return ESP_OK example_hdr"
    by (simp_all add: oversize_env_def example_env_def)
  have la: "length oversize_hdr = HDR_LEN" and lb: "length example_hdr = HDR_LEN"
    by (simp_all add: oversize_hdr_def example_hdr_def HDR_LEN_def)
  have ne: "(0::nat) \<noteq> 8" "(0::nat) \<noteq> 9" by simp_all
  from payload_len_is_little_endian_bytes_8_9 [OF wf_zero_frame a la ne, of "0xFF"]
  have big: "unat (decode_payload_len oversize_hdr) = 1 + 256 * 8"
    "decode_payload_len (oversize_hdr[0 := 0xFF]) = decode_payload_len oversize_hdr"
    "take 4 (fst (loop_body zero_frame oversize_env)) =
       [GpioSetLevel 10 1, SpiSlaveTransmit 80, GpioSetLevel 10 1, SpiSlaveTransmit 16384]"
    by (simp_all add: oversize_hdr_def)
  from payload_len_is_little_endian_bytes_8_9 [OF wf_zero_frame b lb ne, of "0xFF"]
  have small: "take 4 (fst (loop_body zero_frame example_env)) =
       [GpioSetLevel 10 1, SpiSlaveTransmit 80, GpioSetLevel 10 1, SpiSlaveTransmit 40]"
    by (simp add: example_hdr_def)
  from wf_zero_frame big small show ?thesis
    by (intro conjI)
qed

text \<open>Claim C4, as stated, fails. The loop has no branch on a payload length of 0: it
  submits the payload transaction with \<^verbatim>\<open>t.length = 0\<close> and \<^verbatim>\<open>portMAX_DELAY\<close> like any
  other, so whether the payload phase completes is for the driver to decide. Here the
  header declares no payload and the driver call does not return: the iteration stays in
  the payload phase and nothing is sent.\<close>

theorem zero_length_payload_phase_can_block:
  "unat (decode_payload_len zero_len_hdr) = 0 \<and>
   loop_body zero_frame stalled_env =
     ([GpioSetLevel 10 1, SpiSlaveTransmit 80, GpioSetLevel 10 1, SpiSlaveTransmit 0],
      Inl Blocked)"
proof -
  have d: "unat (decode_payload_len zero_len_hdr) = 0"
    by (simp add: decode_unat zero_len_hdr_def)
  have h: "hdr_reply stalled_env = Return ESP_OK zero_len_hdr"
    and p: "payload_reply stalled_env = NoReturn"
    by (simp_all add: stalled_env_def)
  have "rx_header stalled_env = zero_len_hdr"
    by (simp add: rx_header_def h zero_fill_exact zero_len_hdr_def HDR_LEN_def)
  hence n: "rx_len stalled_env = 0"
    using d by (simp add: rx_len_def clamp_small)
  show ?thesis
    using d loop_body_payload_block [OF wf_zero_frame h p]
    by (simp add: n set_rdy_def PIN_RDY_def HDR_LEN_def)
qed

text \<open>Claim C4, amended. When the header declares a payload length of 0, the loop still
  submits a payload transaction, of 0 bits; if the driver returns \<^verbatim>\<open>ESP_OK\<close> for it, the
  datagram is the ten header bytes alone, whatever the bus clocked in meanwhile, and the
  iteration ends normally.\<close>

theorem zero_length_payload_forwards_header_alone:
  assumes "wf_frame s"
    and "hdr_reply env = Return ESP_OK h" and "length h = HDR_LEN"
    and "unat (decode_payload_len h) = 0"
    and "payload_reply env = Return ESP_OK p"
  shows "fst (loop_body s env) =
           [set_rdy 1, SpiSlaveTransmit (HDR_LEN * 8), set_rdy 1, SpiSlaveTransmit 0,
            SendTo h 10] \<and>
         length h = 10 \<and> \<not> isl (snd (loop_body s env))"
proof -
  have n: "rx_len env = 0"
    using assms by (simp add: complete_exact clamp_small)
  have hd: "rx_header env = h" and pl: "rx_payload env = []"
    using assms by (simp_all add: complete_exact clamp_small zero_fill_0)
  show ?thesis
    using assms by (simp add: loop_body_ok iteration_trace_def n hd pl HDR_LEN_def)
qed

theorem zero_length_payload_witness:
  "unat (decode_payload_len zero_len_hdr) = 0 \<and>
   fst (loop_body zero_frame zero_len_env) =
     [set_rdy 1, SpiSlaveTransmit 80, set_rdy 1, SpiSlaveTransmit 0, SendTo zero_len_hdr 10]"
proof -
  have d: "unat (decode_payload_len zero_len_hdr) = 0"
    by (simp add: decode_unat zero_len_hdr_def)
  show ?thesis
    using zero_length_payload_forwards_header_alone
      [of zero_frame zero_len_env zero_len_hdr "[0x55]"] wf_zero_frame d
    by (simp add: zero_len_env_def zero_len_hdr_def HDR_LEN_def)
qed

text \<open>Claim C5. In every run of the loop, whatever the environment answers, each length
  passed to \<^verbatim>\<open>sendto\<close> is at least 10 and at most 2058, and the buffer sent has that
  length.\<close>

theorem send_length_between_10_and_2058:
  assumes "wf_frame s"
  shows "list_all (\<lambda>(d, n). 10 \<le> n \<and> n \<le> 2058 \<and> length d = n)
           (datagrams (fst (spi_udp_forward_loop s envs)))"
  using assms by (rule loop_sends)

theorem send_length_witness:
  "wf_frame zero_frame \<and>
   list_all (\<lambda>(d, n). 10 \<le> n \<and> n \<le> 2058 \<and> length d = n)
     (datagrams (fst (spi_udp_forward_loop zero_frame [oversize_env, zero_len_env])))"
  by (rule conjI [OF wf_zero_frame send_length_between_10_and_2058 [OF wf_zero_frame]])

text \<open>Claim C6. The calls an iteration makes, the datagram among them, do not depend on
  what the previous iteration left in the arrays: after two different previous iterations
  (different headers, payloads and lengths) the same answers of the environment give the
  same trace. So the datagram of iteration N+1 is a function of what iteration N+1
  received, and no byte of iteration N reaches it.\<close>

theorem iteration_trace_independent_of_previous_iteration:
  assumes "wf_frame s" and "wf_frame s'"
    and "loop_body s prev = (ev, Inr s1)" and "loop_body s' prev' = (ev', Inr s1')"
  shows "fst (loop_body s1 env) = fst (loop_body s1' env)"
proof -
  have "wf_frame s1" using assms(1,3) by (rule loop_body_wf)
  moreover have "wf_frame s1'" using assms(2,4) by (rule loop_body_wf)
  ultimately show ?thesis by (rule loop_body_trace_indep)
qed

theorem no_leak_witness:
  "completes oversize_env \<and> completes example_env \<and>
   fst (loop_body (projr (snd (loop_body zero_frame oversize_env))) example_env) =
   fst (loop_body (projr (snd (loop_body zero_frame zero_len_env))) example_env)"
proof -
  have c1: "completes oversize_env" and c2: "completes zero_len_env"
    and c3: "completes example_env"
    by (simp_all add: completes_def oversize_env_def zero_len_env_def example_env_def)
  show ?thesis
    using iteration_trace_independent_of_previous_iteration
      [OF wf_zero_frame wf_zero_frame loop_body_complete(1) [OF wf_zero_frame c1]
        loop_body_complete(1) [OF wf_zero_frame c2], of example_env] c1 c3
    by simp
qed

text \<open>Claim C7. In a run whose iterations all complete, the trace is the concatenation, in
  order, of one block per iteration, and each block is: pin 10 (the ready line) set to
  level 1, header transaction of 80 bits, pin 10 set to level 1, payload transaction,
  \<^verbatim>\<open>sendto\<close>. The ready line is set high exactly twice per iteration, each time directly
  before a driver call, no other level is ever written to it, and the blocks do not
  overlap.\<close>

theorem ready_twice_header_payload_send_in_order:
  assumes "wf_frame s" and "list_all completes envs"
  shows "fst (spi_udp_forward_loop s envs) =
           concat (map (\<lambda>env.
             [GpioSetLevel 10 1, SpiSlaveTransmit 80,
              GpioSetLevel 10 1, SpiSlaveTransmit (rx_len env * 8),
              SendTo (rx_header env @ rx_payload env) (10 + rx_len env)]) envs) \<and>
         fst (spi_udp_forward_loop s envs) = concat (map iteration_trace envs) \<and>
         count_list (fst (spi_udp_forward_loop s envs)) (GpioSetLevel 10 1) = 2 * length envs \<and>
         count_list (fst (spi_udp_forward_loop s envs)) (set_rdy 1) = 2 * length envs"
proof -
  have tr: "fst (spi_udp_forward_loop s envs) = concat (map iteration_trace envs)"
    using assms by (rule loop_complete_trace)
  have sp: "iteration_trace =
      (\<lambda>env. [GpioSetLevel 10 1, SpiSlaveTransmit 80,
              GpioSetLevel 10 1, SpiSlaveTransmit (rx_len env * 8),
              SendTo (rx_header env @ rx_payload env) (10 + rx_len env)])"
    by (rule ext) (simp add: iteration_trace_def set_rdy_def PIN_RDY_def HDR_LEN_def)
  have rdy: "set_rdy 1 = GpioSetLevel 10 1"
    by (simp add: set_rdy_def PIN_RDY_def)
  have cnt: "count_list (fst (spi_udp_forward_loop s envs)) (set_rdy 1) = 2 * length envs"
    unfolding tr by (rule count_rdy_trace)
  from tr [unfolded sp] tr cnt [unfolded rdy] cnt show ?thesis
    by (intro conjI)
qed

theorem ready_twice_witness:
  "list_all completes [example_env, zero_len_env] \<and>
   fst (spi_udp_forward_loop zero_frame [example_env, zero_len_env]) =
     [GpioSetLevel 10 1, SpiSlaveTransmit 80, GpioSetLevel 10 1, SpiSlaveTransmit 40,
      SendTo (example_hdr @ example_payload) 15,
      GpioSetLevel 10 1, SpiSlaveTransmit 80, GpioSetLevel 10 1, SpiSlaveTransmit 0,
      SendTo zero_len_hdr 10] \<and>
   count_list (fst (spi_udp_forward_loop zero_frame [example_env, zero_len_env]))
     (GpioSetLevel 10 1) = 4"
proof -
  have c: "list_all completes [example_env, zero_len_env]"
    by (simp add: completes_def example_env_def zero_len_env_def)
  have d1: "unat (decode_payload_len example_hdr) = 5"
    by (simp add: decode_unat example_hdr_def)
  have d2: "unat (decode_payload_len zero_len_hdr) = 0"
    by (simp add: decode_unat zero_len_hdr_def)
  have h1: "rx_header example_env = example_hdr"
    by (simp add: rx_header_def example_env_def zero_fill_exact example_hdr_def HDR_LEN_def)
  have h2: "rx_header zero_len_env = zero_len_hdr"
    by (simp add: rx_header_def zero_len_env_def zero_fill_exact zero_len_hdr_def HDR_LEN_def)
  have n1: "rx_len example_env = 5"
    using d1 by (simp add: rx_len_def h1 clamp_small PAYLOAD_MAX_def)
  have n2: "rx_len zero_len_env = 0"
    using d2 by (simp add: rx_len_def h2 clamp_small)
  have "rx_payload example_env = zero_fill (rx_len example_env) example_payload"
    by (simp add: rx_payload_def example_env_def)
  hence p1: "rx_payload example_env = example_payload"
    by (simp add: n1 zero_fill_exact example_payload_def)
  have "rx_payload zero_len_env = zero_fill (rx_len zero_len_env) [0x55]"
    by (simp add: rx_payload_def zero_len_env_def)
  hence p2: "rx_payload zero_len_env = []"
    by (simp add: n2 zero_fill_0)
  note inst = ready_twice_header_payload_send_in_order [OF wf_zero_frame c]
  have tr: "fst (spi_udp_forward_loop zero_frame [example_env, zero_len_env]) =
     [GpioSetLevel 10 1, SpiSlaveTransmit 80, GpioSetLevel 10 1, SpiSlaveTransmit 40,
      SendTo (example_hdr @ example_payload) 15,
      GpioSetLevel 10 1, SpiSlaveTransmit 80, GpioSetLevel 10 1, SpiSlaveTransmit 0,
      SendTo zero_len_hdr 10]"
    using inst [THEN conjunct1]
    by (simp add: h1 h2 n1 n2 p1 p2 del: spi_udp_forward_loop.simps)
  have cn: "count_list (fst (spi_udp_forward_loop zero_frame [example_env, zero_len_env]))
     (GpioSetLevel 10 1) = 4"
    using inst [THEN conjunct2, THEN conjunct2, THEN conjunct1] by simp
  from c tr cn show ?thesis
    by (intro conjI)
qed

text \<open>Claim C8. If the driver returns an error to the header transaction, or to the payload
  transaction after a good header, the iteration ends in \<^verbatim>\<open>abort\<close> with that error code,
  its trace holds no \<^verbatim>\<open>sendto\<close>, and the run ends there: later answers of the environment
  are never consumed.\<close>

theorem bus_failure_aborts_before_send:
  assumes "wf_frame s" and "e \<noteq> ESP_OK"
    and "hdr_reply env = Return e rx \<or>
         (hdr_reply env = Return ESP_OK h \<and> payload_reply env = Return e rx)"
  shows "snd (loop_body s env) = Inl (Aborted e) \<and>
         datagrams (fst (loop_body s env)) = [] \<and>
         spi_udp_forward_loop s (env # envs) = loop_body s env"
  using assms(3)
proof
  assume "hdr_reply env = Return e rx"
  hence "loop_body s env = ([set_rdy 1, SpiSlaveTransmit (HDR_LEN * 8)], Inl (Aborted e))"
    using assms(2) by (rule loop_body_hdr_err)
  thus ?thesis
    by (simp add: set_rdy_def)
next
  assume "hdr_reply env = Return ESP_OK h \<and> payload_reply env = Return e rx"
  hence "loop_body s env =
    ([set_rdy 1, SpiSlaveTransmit (HDR_LEN * 8), set_rdy 1, SpiSlaveTransmit (rx_len env * 8)],
     Inl (Aborted e))"
    using assms(1,2) by (simp add: loop_body_payload_err)
  thus ?thesis
    by (simp add: set_rdy_def)
qed

theorem bus_failure_witness:
  "spi_udp_forward_loop zero_frame [hdr_fail_env, example_env] =
     ([set_rdy 1, SpiSlaveTransmit 80], Inl (Aborted (- 1))) \<and>
   snd (spi_udp_forward_loop zero_frame [payload_fail_env, example_env]) = Inl (Aborted (- 1)) \<and>
   datagrams (fst (spi_udp_forward_loop zero_frame [payload_fail_env, example_env])) = []"
proof -
  have ne: "(- 1 :: int) \<noteq> ESP_OK" by (simp add: ESP_OK_def)
  have a: "hdr_reply hdr_fail_env = Return (- 1) [] \<or>
      (hdr_reply hdr_fail_env = Return ESP_OK [] \<and> payload_reply hdr_fail_env = Return (- 1) [])"
    by (simp add: hdr_fail_env_def)
  have b: "hdr_reply payload_fail_env = Return (- 1) [0xAA, 0xBB] \<or>
      (hdr_reply payload_fail_env = Return ESP_OK example_hdr \<and>
       payload_reply payload_fail_env = Return (- 1) [0xAA, 0xBB])"
    by (simp add: payload_fail_env_def)
  have "loop_body zero_frame hdr_fail_env =
      ([set_rdy 1, SpiSlaveTransmit (HDR_LEN * 8)], Inl (Aborted (- 1)))"
    by (rule loop_body_hdr_err [OF _ ne]) (simp add: hdr_fail_env_def)
  with bus_failure_aborts_before_send [OF wf_zero_frame ne a, of "[example_env]"]
    bus_failure_aborts_before_send [OF wf_zero_frame ne b, of "[example_env]"]
  show ?thesis
    by (simp add: HDR_LEN_def del: spi_udp_forward_loop.simps)
qed

text \<open>Claim C9. The value \<^verbatim>\<open>sendto\<close> returns has no influence: two runs that differ only in
  it are equal in their traces and final frames. A complete iteration calls \<^verbatim>\<open>sendto\<close>
  exactly once (no retry), does not stop, and is followed at once by the header phase of
  the next iteration.\<close>

theorem sendto_result_is_ignored:
  assumes "wf_frame s" and "completes env"
  shows "spi_udp_forward_loop s (env\<lparr>sendto_ret := r\<rparr> # envs) =
           spi_udp_forward_loop s (env\<lparr>sendto_ret := r'\<rparr> # envs) \<and>
         length (datagrams (fst (loop_body s (env\<lparr>sendto_ret := r\<rparr>)))) = 1 \<and>
         \<not> isl (snd (loop_body s (env\<lparr>sendto_ret := r\<rparr>))) \<and>
         take 7 (fst (spi_udp_forward_loop s (env\<lparr>sendto_ret := r\<rparr> # next_env # envs))) =
           iteration_trace env @ [set_rdy 1, SpiSlaveTransmit (HDR_LEN * 8)]"
proof -
  let ?env = "env\<lparr>sendto_ret := r\<rparr>"
  let ?s1 = "projr (snd (loop_body s ?env))"
  have same: "spi_udp_forward_loop s (?env # envs) =
      spi_udp_forward_loop s (env\<lparr>sendto_ret := r'\<rparr> # envs)"
    by (simp add: loop_body_ignores_ret [where r = r and r' = r'])
  have c: "completes ?env"
    using assms(2) by (simp add: completes_iff)
  have hd: "rx_header ?env = rx_header env"
    by (simp add: rx_header_def)
  have n: "rx_len ?env = rx_len env"
    by (simp add: rx_len_def hd)
  have pl: "rx_payload ?env = rx_payload env"
    by (simp add: rx_payload_def n split: bus_reply.splits)
  have tr: "iteration_trace ?env = iteration_trace env"
    by (simp add: iteration_trace_def hd n pl)
  have lb: "loop_body s ?env = (iteration_trace env, Inr ?s1)" and wf1: "wf_frame ?s1"
    using loop_body_complete [OF assms(1) c] by (simp_all add: tr)
  have one: "length (datagrams (fst (loop_body s ?env))) = 1"
    by (subst lb) (simp add: datagrams_iteration_trace)
  have cont: "\<not> isl (snd (loop_body s ?env))"
    by (subst lb) simp
  have "fst (spi_udp_forward_loop s (?env # next_env # envs)) =
      iteration_trace env @ fst (spi_udp_forward_loop ?s1 (next_env # envs))"
    by (simp add: loop_Cons_Inr [OF lb] del: spi_udp_forward_loop.simps)
  hence "take 7 (fst (spi_udp_forward_loop s (?env # next_env # envs))) =
      iteration_trace env @ take 2 (fst (spi_udp_forward_loop ?s1 (next_env # envs)))"
    by (simp add: iteration_trace_def del: spi_udp_forward_loop.simps)
  with loop_starts_with_header_phase [OF wf1, of next_env envs]
  have nxt: "take 7 (fst (spi_udp_forward_loop s (?env # next_env # envs))) =
      iteration_trace env @ [set_rdy 1, SpiSlaveTransmit (HDR_LEN * 8)]"
    by simp
  from same one cont nxt show ?thesis
    by (intro conjI)
qed

theorem sendto_result_witness:
  "completes example_env \<and>
   spi_udp_forward_loop zero_frame (example_env\<lparr>sendto_ret := - 1\<rparr> # [oversize_env]) =
   spi_udp_forward_loop zero_frame (example_env\<lparr>sendto_ret := 15\<rparr> # [oversize_env])"
proof -
  have c: "completes example_env"
    by (simp add: completes_def example_env_def)
  from sendto_result_is_ignored [OF wf_zero_frame c, of "- 1" "[oversize_env]" 15]
  have "spi_udp_forward_loop zero_frame (example_env\<lparr>sendto_ret := - 1\<rparr> # [oversize_env]) =
   spi_udp_forward_loop zero_frame (example_env\<lparr>sendto_ret := 15\<rparr> # [oversize_env])"
    by (rule conjunct1)
  with c show ?thesis by (rule conjI)
qed

text \<open>Claim C10. For each of the 65536 values of the decoded length the clamped length is at
  most 2048, and no run of the loop from a frame of the right shape ever writes or reads
  outside \<^verbatim>\<open>hdr\<close>, \<^verbatim>\<open>payload\<close> or \<^verbatim>\<open>out\<close>: every \<^verbatim>\<open>memset\<close>, every store of the
  driver, both \<^verbatim>\<open>memcpy\<close> and the read by \<^verbatim>\<open>sendto\<close> check their range in the model, and
  the failure of such a check is never the outcome.\<close>

theorem buffer_writes_stay_in_bounds:
  assumes "wf_frame s"
  shows "unat (clamp_payload_len w) \<le> 2048 \<and>
         snd (spi_udp_forward_loop s envs) \<noteq> Inl MemFault"
  using clamp_le [of w] loop_no_memfault [OF assms, of envs]
  by (simp add: PAYLOAD_MAX_def)

theorem buffer_writes_witness:
  "wf_frame zero_frame \<and> unat (clamp_payload_len 0xFFFF) \<le> 2048 \<and>
   snd (spi_udp_forward_loop zero_frame [oversize_env, example_env]) \<noteq> Inl MemFault"
  using wf_zero_frame
    buffer_writes_stay_in_bounds [OF wf_zero_frame, of "0xFFFF" "[oversize_env, example_env]"]
  by blast

end
